theory Spec2Isabelle
  imports Complex_Main "HOL-Library.Sublist"
begin

section \<open>Numbers and strings of the front end\<close>

text \<open>
  A TypeScript \<open>number\<close> is an IEEE binary64 value. A finite one is modelled by the
  rational it denotes. Integer literals and the integer arithmetic on them (the mock
  data, the countdown) are exact in binary64; the quote calculations multiply and add
  fractions, and there every operation rounds its exact result to the nearest
  binary64 value, which \<open>fl\<close> below does.
\<close>

type_synonym number = rat

text \<open>\<open>Math.round\<close>: the nearest integer, a tie going to the larger one.\<close>

definition Math_round :: "number \<Rightarrow> number" where
  "Math_round x = of_int \<lfloor>x + 1 / 2\<rfloor>"

text \<open>
  Rounding to binary64, to nearest with ties to the even significand. The quantum of
  \<open>x\<close> is the spacing of the binary64 values around it: the power of two \<open>q\<close> with
  \<open>2^52 * q \<le> |x| < 2^53 * q\<close>, but never less than \<open>2^-1074\<close>, the spacing of the
  subnormal numbers; the search starts at \<open>q = 1\<close> and halves at most 1074 times or
  doubles at most 971 times. Results of magnitude \<open>2^1024\<close> and more are infinite in
  binary64; they do not arise below, where every rounded value is less than \<open>2^13\<close>.
\<close>

fun quantum_down :: "nat \<Rightarrow> rat \<Rightarrow> rat \<Rightarrow> rat" where
  "quantum_down 0 q x = q"
| "quantum_down (Suc n) q x = (if \<bar>x\<bar> < 2 ^ 52 * q then quantum_down n (q / 2) x else q)"

fun quantum_up :: "nat \<Rightarrow> rat \<Rightarrow> rat \<Rightarrow> rat" where
  "quantum_up 0 q x = q"
| "quantum_up (Suc n) q x = (if 2 ^ 53 * q \<le> \<bar>x\<bar> then quantum_up n (2 * q) x else q)"

definition quantum :: "rat \<Rightarrow> rat" where
  "quantum x = (if \<bar>x\<bar> < 2 ^ 52 then quantum_down 1074 1 x else quantum_up 971 1 x)"

definition round_half_even :: "rat \<Rightarrow> int" where
  "round_half_even y =
     (let n = \<lfloor>y\<rfloor>; r = y - of_int n
      in if r < 1 / 2 then n else if 1 / 2 < r then n + 1 else if even n then n else n + 1)"

definition fl :: "rat \<Rightarrow> number" where
  "fl x = of_int (round_half_even (x / quantum x)) * quantum x"

text \<open>
  The binary64 operations \<open>+\<close>, \<open>-\<close> and \<open>*\<close>, and a decimal literal of the source,
  which denotes the binary64 value nearest to it.
\<close>

definition dadd :: "number \<Rightarrow> number \<Rightarrow> number" where
  "dadd x y = fl (x + y)"

definition dsub :: "number \<Rightarrow> number \<Rightarrow> number" where
  "dsub x y = fl (x - y)"

definition dmul :: "number \<Rightarrow> number \<Rightarrow> number" where
  "dmul x y = fl (x * y)"

definition lit :: "rat \<Rightarrow> number" where
  "lit x = fl x"

text \<open>A result of \<open>Math.random()\<close>: a binary64 value in \<open>[0, 1)\<close>.\<close>

definition Math_random :: "number \<Rightarrow> bool" where
  "Math_random r = (0 \<le> r \<and> r < 1 \<and> fl r = r)"

text \<open>\<open>String.prototype.toLowerCase\<close>, on the ASCII letters.\<close>

definition lower_char :: "char \<Rightarrow> char" where
  "lower_char c =
     (let n = (of_char c :: nat) in if 65 \<le> n \<and> n \<le> 90 then char_of (n + 32) else c)"

definition toLowerCase :: "string \<Rightarrow> string" where
  "toLowerCase s = map lower_char s"

text \<open>\<open>String.prototype.includes\<close>: the argument occurs as a contiguous substring.\<close>

fun str_includes :: "string \<Rightarrow> string \<Rightarrow> bool" where
  "str_includes [] q = (q = [])"
| "str_includes (c # cs) q = (prefix q (c # cs) \<or> str_includes cs q)"


section \<open>The pooling dashboard: \<open>mockOpportunities\<close> and its filter\<close>

record location =
  city :: string
  state :: string

record pool_shipment =
  shp_id :: string
  shp_weight :: number
  shp_ft :: number
  shp_origin :: string
  shp_dest :: string

record opportunity =
  opp_id :: string
  matchScore :: number
  shipmentsCount :: number
  origin :: location
  destination :: location
  totalSavings :: number
  savingsPercent :: number
  individualCost :: number
  pooledCost :: number
  timeRemaining :: number
  equipment :: string
  shipments :: "pool_shipment list"

definition pool_001 :: opportunity where
  "pool_001 = \<lparr>opp_id = ''POOL-001'', matchScore = 92, shipmentsCount = 3,
     origin = \<lparr>city = ''Los Angeles'', state = ''CA''\<rparr>,
     destination = \<lparr>city = ''Dallas'', state = ''TX''\<rparr>,
     totalSavings = 1240, savingsPercent = 28, individualCost = 4428, pooledCost = 3188,
     timeRemaining = 45, equipment = ''Dry Van'',
     shipments =
      [\<lparr>shp_id = ''SHP-001'', shp_weight = 12000, shp_ft = 18,
         shp_origin = ''Los Angeles, CA'', shp_dest = ''Dallas, TX''\<rparr>,
       \<lparr>shp_id = ''SHP-002'', shp_weight = 8500, shp_ft = 12,
         shp_origin = ''San Diego, CA'', shp_dest = ''Austin, TX''\<rparr>,
       \<lparr>shp_id = ''SHP-003'', shp_weight = 6200, shp_ft = 10,
         shp_origin = ''Riverside, CA'', shp_dest = ''Houston, TX''\<rparr>]\<rparr>"

definition pool_002 :: opportunity where
  "pool_002 = \<lparr>opp_id = ''POOL-002'', matchScore = 87, shipmentsCount = 2,
     origin = \<lparr>city = ''Chicago'', state = ''IL''\<rparr>,
     destination = \<lparr>city = ''Atlanta'', state = ''GA''\<rparr>,
     totalSavings = 890, savingsPercent = 24, individualCost = 3708, pooledCost = 2818,
     timeRemaining = 120, equipment = ''Reefer'',
     shipments =
      [\<lparr>shp_id = ''SHP-004'', shp_weight = 15000, shp_ft = 22,
         shp_origin = ''Chicago, IL'', shp_dest = ''Atlanta, GA''\<rparr>,
       \<lparr>shp_id = ''SHP-005'', shp_weight = 9800, shp_ft = 14,
         shp_origin = ''Milwaukee, WI'', shp_dest = ''Birmingham, AL''\<rparr>]\<rparr>"

definition pool_003 :: opportunity where
  "pool_003 = \<lparr>opp_id = ''POOL-003'', matchScore = 78, shipmentsCount = 4,
     origin = \<lparr>city = ''Seattle'', state = ''WA''\<rparr>,
     destination = \<lparr>city = ''Phoenix'', state = ''AZ''\<rparr>,
     totalSavings = 1580, savingsPercent = 32, individualCost = 4937, pooledCost = 3357,
     timeRemaining = 30, equipment = ''Dry Van'',
     shipments =
      [\<lparr>shp_id = ''SHP-006'', shp_weight = 7200, shp_ft = 10,
         shp_origin = ''Seattle, WA'', shp_dest = ''Phoenix, AZ''\<rparr>,
       \<lparr>shp_id = ''SHP-007'', shp_weight = 5400, shp_ft = 8,
         shp_origin = ''Portland, OR'', shp_dest = ''Tucson, AZ''\<rparr>,
       \<lparr>shp_id = ''SHP-008'', shp_weight = 8900, shp_ft = 12,
         shp_origin = ''Tacoma, WA'', shp_dest = ''Mesa, AZ''\<rparr>,
       \<lparr>shp_id = ''SHP-009'', shp_weight = 4100, shp_ft = 6,
         shp_origin = ''Spokane, WA'', shp_dest = ''Scottsdale, AZ''\<rparr>]\<rparr>"

definition pool_004 :: opportunity where
  "pool_004 = \<lparr>opp_id = ''POOL-004'', matchScore = 95, shipmentsCount = 2,
     origin = \<lparr>city = ''New York'', state = ''NY''\<rparr>,
     destination = \<lparr>city = ''Miami'', state = ''FL''\<rparr>,
     totalSavings = 1120, savingsPercent = 26, individualCost = 4307, pooledCost = 3187,
     timeRemaining = 90, equipment = ''Dry Van'',
     shipments =
      [\<lparr>shp_id = ''SHP-010'', shp_weight = 18000, shp_ft = 26,
         shp_origin = ''New York, NY'', shp_dest = ''Miami, FL''\<rparr>,
       \<lparr>shp_id = ''SHP-011'', shp_weight = 11000, shp_ft = 16,
         shp_origin = ''Newark, NJ'', shp_dest = ''Fort Lauderdale, FL''\<rparr>]\<rparr>"

definition pool_005 :: opportunity where
  "pool_005 = \<lparr>opp_id = ''POOL-005'', matchScore = 81, shipmentsCount = 3,
     origin = \<lparr>city = ''Denver'', state = ''CO''\<rparr>,
     destination = \<lparr>city = ''Las Vegas'', state = ''NV''\<rparr>,
     totalSavings = 720, savingsPercent = 22, individualCost = 3272, pooledCost = 2552,
     timeRemaining = 60, equipment = ''Flatbed'',
     shipments =
      [\<lparr>shp_id = ''SHP-012'', shp_weight = 20000, shp_ft = 24,
         shp_origin = ''Denver, CO'', shp_dest = ''Las Vegas, NV''\<rparr>,
       \<lparr>shp_id = ''SHP-013'', shp_weight = 12500, shp_ft = 18,
         shp_origin = ''Boulder, CO'', shp_dest = ''Henderson, NV''\<rparr>,
       \<lparr>shp_id = ''SHP-014'', shp_weight = 8000, shp_ft = 10,
         shp_origin = ''Colorado Springs, CO'', shp_dest = ''Reno, NV''\<rparr>]\<rparr>"

definition pool_006 :: opportunity where
  "pool_006 = \<lparr>opp_id = ''POOL-006'', matchScore = 89, shipmentsCount = 2,
     origin = \<lparr>city = ''Boston'', state = ''MA''\<rparr>,
     destination = \<lparr>city = ''Philadelphia'', state = ''PA''\<rparr>,
     totalSavings = 480, savingsPercent = 18, individualCost = 2666, pooledCost = 2186,
     timeRemaining = 180, equipment = ''Reefer'',
     shipments =
      [\<lparr>shp_id = ''SHP-015'', shp_weight = 9500, shp_ft = 14,
         shp_origin = ''Boston, MA'', shp_dest = ''Philadelphia, PA''\<rparr>,
       \<lparr>shp_id = ''SHP-016'', shp_weight = 7200, shp_ft = 10,
         shp_origin = ''Providence, RI'', shp_dest = ''Trenton, NJ''\<rparr>]\<rparr>"

definition mockOpportunities :: "opportunity list" where
  "mockOpportunities = [pool_001, pool_002, pool_003, pool_004, pool_005, pool_006]"

text \<open>
  The callback of \<open>mockOpportunities.filter\<close> in \<open>PoolingDashboard\<close>. The four
  arguments are the component's state: the search box and the three selects, whose
  value \<open>all\<close> switches a select off. An empty search string is falsy.
\<close>

definition keepOpportunity :: "string \<Rightarrow> string \<Rightarrow> string \<Rightarrow> string \<Rightarrow> opportunity \<Rightarrow> bool" where
  "keepOpportunity searchQuery originState destState equipmentSel opp =
     (if originState \<noteq> ''all'' \<and> state (origin opp) \<noteq> originState then False
      else if destState \<noteq> ''all'' \<and> state (destination opp) \<noteq> destState then False
      else if equipmentSel \<noteq> ''all'' \<and> equipment opp \<noteq> equipmentSel then False
      else if searchQuery \<noteq> [] then
        (let query = toLowerCase searchQuery in
           str_includes (toLowerCase (city (origin opp))) query \<or>
           str_includes (toLowerCase (city (destination opp))) query \<or>
           str_includes (toLowerCase (opp_id opp)) query)
      else True)"

definition filteredOpportunities ::
  "opportunity list \<Rightarrow> string \<Rightarrow> string \<Rightarrow> string \<Rightarrow> string \<Rightarrow> opportunity list" where
  "filteredOpportunities opps searchQuery originState destState equipmentSel =
     filter (keepOpportunity searchQuery originState destState equipmentSel) opps"


section \<open>The simulated quote calculations\<close>

text \<open>
  \<open>handleCalculate\<close> of \<open>QuoteCalculator\<close>. The body of the timer callback first
  computes seven local constants and then stores them with \<open>setQuote\<close>, each passed
  through \<open>Math.round\<close>. The three arguments are the three results of
  \<open>Math.random()\<close>, in the order of the calls; each lies in \<open>[0, 1)\<close>.
\<close>

record quote =
  baseRate :: number
  fuelSurcharge :: number
  poolingDiscount :: number
  total :: number
  marketAverage :: number
  poolingProbability :: number
  additionalSavings :: number

definition quoteLocals :: "number \<Rightarrow> number \<Rightarrow> number \<Rightarrow> quote" where
  "quoteLocals r1 r2 r3 =
     (let b = dadd 1800 (dmul r1 800);
          f = dmul b (lit 0.18);
          d = dmul b (lit 0.22);
          t = dsub (dadd b f) d
      in \<lparr>baseRate = b, fuelSurcharge = f, poolingDiscount = d, total = t,
          marketAverage = dmul t (lit 1.35),
          poolingProbability = dadd 65 (dmul r2 25),
          additionalSavings = dadd (dmul b (lit 0.12)) (dmul r3 100)\<rparr>)"

definition roundQuote :: "quote \<Rightarrow> quote" where
  "roundQuote q =
     \<lparr>baseRate = Math_round (baseRate q),
      fuelSurcharge = Math_round (fuelSurcharge q),
      poolingDiscount = Math_round (poolingDiscount q),
      total = Math_round (total q),
      marketAverage = Math_round (marketAverage q),
      poolingProbability = Math_round (poolingProbability q),
      additionalSavings = Math_round (additionalSavings q)\<rparr>"

definition handleCalculate :: "number \<Rightarrow> number \<Rightarrow> number \<Rightarrow> quote" where
  "handleCalculate r1 r2 r3 = roundQuote (quoteLocals r1 r2 r3)"

text \<open>
  The quote effect of \<open>ReviewStep\<close>: one call of \<open>Math.random()\<close>. Its state object
  has the fields \<open>baseRate\<close>, \<open>fuelSurcharge\<close>, \<open>poolingDiscount\<close>, \<open>finalPrice\<close>,
  \<open>marketRate\<close>, \<open>poolingProbability\<close> and \<open>potentialSavings\<close>; the first three share
  their names with the calculator's quote and carry the prefix \<open>rv_\<close> here.
  \<open>reviewLocals\<close> holds the unrounded values: the five local constants, the literal
  78, and the argument \<open>poolingDiscount * 1.5\<close> of the last \<open>Math.round\<close>.
\<close>

record review_quote =
  rv_baseRate :: number
  rv_fuelSurcharge :: number
  rv_poolingDiscount :: number
  finalPrice :: number
  marketRate :: number
  rv_poolingProbability :: number
  potentialSavings :: number

definition reviewLocals :: "number \<Rightarrow> review_quote" where
  "reviewLocals r =
     (let b = dadd 850 (dmul r 400);
          f = dmul b (lit 0.18);
          d = dmul b (lit 0.23)
      in \<lparr>rv_baseRate = b, rv_fuelSurcharge = f, rv_poolingDiscount = d,
          finalPrice = dsub (dadd b f) d,
          marketRate = dmul b (lit 1.35),
          rv_poolingProbability = 78,
          potentialSavings = dmul d (lit 1.5)\<rparr>)"

definition reviewQuote :: "number \<Rightarrow> review_quote" where
  "reviewQuote r =
     (let l = reviewLocals r
      in \<lparr>rv_baseRate = Math_round (rv_baseRate l),
          rv_fuelSurcharge = Math_round (rv_fuelSurcharge l),
          rv_poolingDiscount = Math_round (rv_poolingDiscount l),
          finalPrice = Math_round (finalPrice l),
          marketRate = Math_round (marketRate l),
          rv_poolingProbability = rv_poolingProbability l,
          potentialSavings = Math_round (potentialSavings l)\<rparr>)"

text \<open>An amount of dollars that is a whole number of cents.\<close>

definition whole_cents :: "number \<Rightarrow> bool" where
  "whole_cents x = (of_int \<lfloor>x * 100\<rfloor> = x * 100)"


text \<open>
  \<open>shown\<close> is \<open>raw\<close> rounded to a whole number, half a unit going up.
\<close>

definition rounded_half_up :: "number \<Rightarrow> number \<Rightarrow> bool" where
  "rounded_half_up raw shown =
     (of_int \<lfloor>shown\<rfloor> = shown \<and> raw - 1 / 2 < shown \<and> shown \<le> raw + 1 / 2)"


section \<open>The countdown of the pooling card\<close>

text \<open>
  \<open>PoolingCard\<close> keeps \<open>timeLeft\<close>, initially \<open>opportunity.timeRemaining\<close>; every
  60000 ms the interval timer applies the updater \<open>prev => Math.max(0, prev - 1)\<close>.
\<close>

definition tick :: "number \<Rightarrow> number" where
  "tick prev = max 0 (prev - 1)"

definition timeLeft_after :: "nat \<Rightarrow> opportunity \<Rightarrow> number" where
  "timeLeft_after n opp = (tick ^^ n) (timeRemaining opp)"


section \<open>The API client: \<open>fetchAPI\<close>\<close>

datatype json =
    JNull
  | JBool bool
  | JNumber number
  | JString string
  | JArray "json list"
  | JObject "(string \<times> json) list"

text \<open>
  What \<open>await fetch(url, ...)\<close> gives: the promise rejects (no response at all), or it
  resolves to a response. Of a response the function reads \<open>ok\<close>, \<open>status\<close> and the
  body through \<open>response.json()\<close>; \<open>body\<close> is \<open>None\<close> when the body is not valid
  JSON (an empty body, for instance), so that \<open>response.json()\<close> rejects.
\<close>

record response =
  ok :: bool
  status :: nat
  body :: "json option"

datatype fetch_result = FetchRejected | Response response

text \<open>
  The message of \<open>new Error(v)\<close> is \<open>String(v)\<close>: the string itself when \<open>v\<close> is a
  string, and the string conversion of \<open>v\<close>, left symbolic, otherwise.
\<close>

datatype message = Text string | StringOf json

datatype js_error =
    JsError message
  | JsTypeError
  | JsSyntaxError
  | NetworkFailure

fun message_of :: "json \<Rightarrow> message" where
  "message_of (JString s) = Text s"
| "message_of v = StringOf v"

text \<open>Truthiness of a parsed JSON value, as \<open>||\<close> tests it.\<close>

fun truthy :: "json \<Rightarrow> bool" where
  "truthy JNull = False"
| "truthy (JBool b) = b"
| "truthy (JNumber x) = (x \<noteq> 0)"
| "truthy (JString s) = (s \<noteq> [])"
| "truthy (JArray _) = True"
| "truthy (JObject _) = True"

text \<open>
  The property read \<open>error.error\<close> on a value other than \<open>null\<close>: \<open>None\<close> is
  \<open>undefined\<close>. Of a repeated key \<open>JSON.parse\<close> keeps the last occurrence.
\<close>

fun prop_error :: "json \<Rightarrow> json option" where
  "prop_error (JObject kvs) = map_of (rev kvs) ''error''"
| "prop_error _ = None"

text \<open>The decimal digits of the status code, as the template literal prints it.\<close>

definition digit_char :: "nat \<Rightarrow> char" where
  "digit_char d = char_of (of_char (CHR ''0'') + d)"

fun status_text :: "nat \<Rightarrow> string" where
  "status_text st =
     (if 10 \<le> st then status_text (st div 10) else []) @ [digit_char (st mod 10)]"

definition api_error_message :: "nat \<Rightarrow> message" where
  "api_error_message st = Text (''API Error: '' @ status_text st)"

definition fetchAPI :: "fetch_result \<Rightarrow> js_error + json" where
  "fetchAPI fr =
     (case fr of
        FetchRejected \<Rightarrow> Inl NetworkFailure
      | Response r \<Rightarrow>
          if \<not> ok r then
            (let error = (case body r of
                            None \<Rightarrow> JObject [(''error'', JString ''Unknown error'')]
                          | Some v \<Rightarrow> v)
             in case error of
                  JNull \<Rightarrow> Inl JsTypeError
                | _ \<Rightarrow>
                   (case prop_error error of
                      Some v \<Rightarrow>
                        if truthy v then Inl (JsError (message_of v))
                        else Inl (JsError (api_error_message (status r)))
                    | None \<Rightarrow> Inl (JsError (api_error_message (status r)))))
          else (case body r of None \<Rightarrow> Inl JsSyntaxError | Some v \<Rightarrow> Inr v))"


section \<open>Quote acceptance\<close>

text \<open>
  Modelled from the spec: the handler of \<open>POST /quotes/{id}/accept\<close> belongs to the
  Python backend, which is not among the sources; the client's \<open>api.quotes.accept\<close>
  only posts the request through \<open>fetchAPI\<close>. The spec gives a quote a validity
  deadline \<open>valid_until\<close>, lets acceptance strictly before the deadline succeed with a
  confirmation, and lets acceptance of an expired quote fail with \<open>Expired\<close>. Times are
  timestamps; the confirmation carries the identifier of the accepted quote.
\<close>

datatype condition = Invalid | Infeasible | Expired | Conflict | Busy | Unavailable

record quote_offer =
  offer_id :: string
  valid_until :: int

definition accept_quote :: "int \<Rightarrow> quote_offer \<Rightarrow> condition + string" where
  "accept_quote now q = (if now < valid_until q then Inr (offer_id q) else Inl Expired)"


section \<open>The shipment form schema and the linear-feet sliders\<close>

text \<open>
  The values that can reach a \<open>z.number()\<close>: a finite number, \<open>NaN\<close> or an infinity.
  \<open>z.number()\<close> refuses \<open>NaN\<close>; \<open>.min(c)\<close> raises an issue when the value is below
  \<open>c\<close> and \<open>.max(c)\<close> when it is above \<open>c\<close>, both bounds inclusive.
\<close>

datatype js_number = Finite number | NaN | PosInfinity | NegInfinity

fun below :: "js_number \<Rightarrow> number \<Rightarrow> bool" where
  "below (Finite a) c = (a < c)"
| "below NegInfinity c = True"
| "below _ c = False"

fun above :: "js_number \<Rightarrow> number \<Rightarrow> bool" where
  "above (Finite a) c = (c < a)"
| "above PosInfinity c = True"
| "above _ c = False"

datatype js_date = Date int | InvalidDate

text \<open>Each check returns the paths of the issues it raises.\<close>

definition z_string_min :: "string \<Rightarrow> nat \<Rightarrow> string \<Rightarrow> string list" where
  "z_string_min path n s = (if length s < n then [path] else [])"

definition z_date :: "string \<Rightarrow> js_date option \<Rightarrow> string list" where
  "z_date path v = (case v of Some (Date _) \<Rightarrow> [] | _ \<Rightarrow> [path])"

definition z_number :: "string \<Rightarrow> number option \<Rightarrow> number option \<Rightarrow> js_number \<Rightarrow> string list" where
  "z_number path mn mx v =
     (if v = NaN then [path]
      else (case mn of Some c \<Rightarrow> if below v c then [path] else [] | None \<Rightarrow> []) @
           (case mx of Some c \<Rightarrow> if above v c then [path] else [] | None \<Rightarrow> []))"

text \<open>
  The input of \<open>shipmentSchema\<close>. Optional strings and the booleans with a default may
  be \<open>undefined\<close> and raise no issue. The field \<open>length\<close> of the source is
  \<open>freightLength\<close> here.
\<close>

record ShipmentFormData =
  originAddress :: string
  originCity :: string
  originState :: string
  originZip :: string
  pickupDate :: "js_date option"
  pickupTimeFrom :: string
  pickupTimeTo :: string
  originContact :: string
  originPhone :: string
  originInstructions :: "string option"
  destAddress :: string
  destCity :: string
  destState :: string
  destZip :: string
  deliveryDate :: "js_date option"
  deliveryTimeFrom :: string
  deliveryTimeTo :: string
  destContact :: string
  destPhone :: string
  appointmentRequired :: "bool option"
  liftgateRequired :: "bool option"
  destInstructions :: "string option"
  weight :: js_number
  freightLength :: js_number
  width :: js_number
  height :: js_number
  linearFeet :: js_number
  palletCount :: js_number
  equipmentType :: string
  commodityType :: string
  stackable :: "bool option"
  hazmat :: "bool option"

definition shipmentSchema :: "ShipmentFormData \<Rightarrow> string list" where
  "shipmentSchema d =
     z_string_min ''originAddress'' 1 (originAddress d) @
     z_string_min ''originCity'' 1 (originCity d) @
     z_string_min ''originState'' 1 (originState d) @
     z_string_min ''originZip'' 5 (originZip d) @
     z_date ''pickupDate'' (pickupDate d) @
     z_string_min ''pickupTimeFrom'' 1 (pickupTimeFrom d) @
     z_string_min ''pickupTimeTo'' 1 (pickupTimeTo d) @
     z_string_min ''originContact'' 1 (originContact d) @
     z_string_min ''originPhone'' 10 (originPhone d) @
     z_string_min ''destAddress'' 1 (destAddress d) @
     z_string_min ''destCity'' 1 (destCity d) @
     z_string_min ''destState'' 1 (destState d) @
     z_string_min ''destZip'' 5 (destZip d) @
     z_date ''deliveryDate'' (deliveryDate d) @
     z_string_min ''deliveryTimeFrom'' 1 (deliveryTimeFrom d) @
     z_string_min ''deliveryTimeTo'' 1 (deliveryTimeTo d) @
     z_string_min ''destContact'' 1 (destContact d) @
     z_string_min ''destPhone'' 10 (destPhone d) @
     z_number ''weight'' (Some 1) None (weight d) @
     z_number ''length'' (Some 1) None (freightLength d) @
     z_number ''width'' (Some 1) None (width d) @
     z_number ''height'' (Some 1) None (height d) @
     z_number ''linearFeet'' (Some 1) (Some 53) (linearFeet d) @
     z_number ''palletCount'' (Some 1) None (palletCount d) @
     z_string_min ''equipmentType'' 1 (equipmentType d) @
     z_string_min ''commodityType'' 1 (commodityType d)"

definition validation_succeeds :: "ShipmentFormData \<Rightarrow> bool" where
  "validation_succeeds d = (shipmentSchema d = [])"

text \<open>
  The linear-feet slider of \<open>QuoteCalculator\<close>:
  \<open>Slider value={linearFeet} onValueChange={setLinearFeet} min={1} max={53} step={1}\<close>,
  over the state \<open>useState([20])\<close>. The slider component itself is not among the
  sources; \<open>slider_reports\<close> is what a slider with these bounds may pass to
  \<open>onValueChange\<close>, and \<open>linearFeet_after\<close> is the state after a run of such calls.
\<close>

record slider_props =
  slider_min :: number
  slider_max :: number
  slider_step :: number

definition quoteSlider :: slider_props where
  "quoteSlider = \<lparr>slider_min = 1, slider_max = 53, slider_step = 1\<rparr>"

definition linearFeet_initial :: "number list" where
  "linearFeet_initial = [20]"

definition slider_reports :: "slider_props \<Rightarrow> number list \<Rightarrow> bool" where
  "slider_reports p vs = list_all (\<lambda>v. slider_min p \<le> v \<and> v \<le> slider_max p) vs"

definition setLinearFeet :: "number list \<Rightarrow> number list \<Rightarrow> number list" where
  "setLinearFeet st vs = vs"

definition linearFeet_after :: "number list list \<Rightarrow> number list" where
  "linearFeet_after evs = foldl setLinearFeet linearFeet_initial evs"

text \<open>The default values of the shipment form with its empty fields filled in.\<close>

definition sampleForm :: ShipmentFormData where
  "sampleForm =
     \<lparr>originAddress = ''1 Main St'', originCity = ''Los Angeles'', originState = ''CA'',
      originZip = ''90210'', pickupDate = Some (Date 0),
      pickupTimeFrom = ''08:00'', pickupTimeTo = ''17:00'',
      originContact = ''Ann'', originPhone = ''5550001111'', originInstructions = Some [],
      destAddress = ''2 Elm St'', destCity = ''Dallas'', destState = ''TX'',
      destZip = ''75201'', deliveryDate = Some (Date 86400000),
      deliveryTimeFrom = ''08:00'', deliveryTimeTo = ''17:00'',
      destContact = ''Bob'', destPhone = ''5550002222'',
      appointmentRequired = Some False, liftgateRequired = Some False,
      destInstructions = Some [],
      weight = Finite 12000, freightLength = Finite 48, width = Finite 40,
      height = Finite 48, linearFeet = Finite 6, palletCount = Finite 1,
      equipmentType = ''dry-van'', commodityType = ''general'',
      stackable = Some False, hazmat = Some False\<rparr>"


section \<open>Properties of the surfaced opportunities\<close>

lemmas pool_defs =
  pool_001_def pool_002_def pool_003_def pool_004_def pool_005_def pool_006_def

lemma filteredOpportunities_subset:
  "set (filteredOpportunities opps q os ds eq) \<subseteq> set opps"
  by (simp add: filteredOpportunities_def)

lemma keep_pool_001_dallas: "keepOpportunity ''DALL'' ''all'' ''TX'' ''all'' pool_001"
  by code_simp

lemma pool_001_surfaced:
  "pool_001 \<in> set (filteredOpportunities mockOpportunities ''DALL'' ''all'' ''TX'' ''all'')"
  using keep_pool_001_dallas by (simp add: filteredOpportunities_def mockOpportunities_def)

lemma mock_costs:
  "\<forall>opp \<in> set mockOpportunities. pooledCost opp \<le> individualCost opp"
  by (simp add: mockOpportunities_def pool_defs)

text \<open>
  Claim C1. Every opportunity of \<open>mockOpportunities\<close>, and hence every opportunity that
  the dashboard renders as a \<open>PoolingCard\<close> under any setting of the search box and
  the three selects, has a pooled cost that is at most its individual cost.
\<close>

theorem C1_pooled_cost_at_most_individual:
  "(\<forall>opp \<in> set mockOpportunities. pooledCost opp \<le> individualCost opp) \<and>
   (\<forall>opp \<in> set (filteredOpportunities mockOpportunities q os ds eq).
      pooledCost opp \<le> individualCost opp)"
  using mock_costs filteredOpportunities_subset [of mockOpportunities q os ds eq] by blast

theorem C1_pooled_cost_at_most_individual_witness:
  "pool_001 \<in> set (filteredOpportunities mockOpportunities ''DALL'' ''all'' ''TX'' ''all'') \<and>
   pool_001 \<in> set mockOpportunities \<and>
   pooledCost pool_001 \<le> individualCost pool_001"
proof -
  have m: "pool_001 \<in> set mockOpportunities"
    by (simp add: mockOpportunities_def)
  from C1_pooled_cost_at_most_individual [of "''DALL''" "''all''" "''TX''" "''all''"]
    pool_001_surfaced
  have "pooledCost pool_001 \<le> individualCost pool_001" by blast
  with m pool_001_surfaced show ?thesis by simp
qed

text \<open>
  Claim C2. For every opportunity of \<open>mockOpportunities\<close>, \<open>savingsPercent\<close> is
  \<open>Math.round((individualCost - pooledCost) / individualCost * 100)\<close> and is not
  negative, and \<open>totalSavings\<close> is \<open>individualCost - pooledCost\<close>.
\<close>

theorem C2_savings_fields_consistent:
  "\<forall>opp \<in> set mockOpportunities.
     savingsPercent opp
       = Math_round ((individualCost opp - pooledCost opp) / individualCost opp * 100) \<and>
     0 \<le> savingsPercent opp \<and>
     totalSavings opp = individualCost opp - pooledCost opp"
  by (simp add: mockOpportunities_def pool_defs Math_round_def floor_eq_iff)

theorem C2_savings_fields_consistent_witness:
  "pool_003 \<in> set mockOpportunities \<and>
   savingsPercent pool_003 = Math_round ((4937 - 3357) / 4937 * 100) \<and>
   savingsPercent pool_003 = 32 \<and> totalSavings pool_003 = 1580"
proof -
  have m: "pool_003 \<in> set mockOpportunities"
    by (simp add: mockOpportunities_def)
  from C2_savings_fields_consistent m
  have "savingsPercent pool_003
          = Math_round ((individualCost pool_003 - pooledCost pool_003)
              / individualCost pool_003 * 100)" by blast
  then show ?thesis using m by (simp add: pool_003_def)
qed

text \<open>
  Claim C4. Every opportunity of \<open>mockOpportunities\<close> groups 2, 3 or 4 shipments, and
  its \<open>shipmentsCount\<close> is the length of its \<open>shipments\<close> array.
\<close>

theorem C4_pool_size_between_2_and_4:
  "\<forall>opp \<in> set mockOpportunities.
     shipmentsCount opp \<in> {2, 3, 4} \<and>
     shipmentsCount opp = of_nat (length (shipments opp))"
  by (simp add: mockOpportunities_def pool_defs)

theorem C4_pool_size_between_2_and_4_witness:
  "pool_003 \<in> set mockOpportunities \<and> shipmentsCount pool_003 = 4 \<and>
   length (shipments pool_003) = 4"
proof -
  have m: "pool_003 \<in> set mockOpportunities"
    by (simp add: mockOpportunities_def)
  from C4_pool_size_between_2_and_4 m
  have "shipmentsCount pool_003 = of_nat (length (shipments pool_003))" by blast
  then show ?thesis using m by (simp add: pool_003_def)
qed

text \<open>
  Claim C7. The list of opportunities shown by the dashboard is a function of the
  opportunity list, the search query and the three selections alone, so the same inputs
  give the same list in the same order. Filtering its own result again with the same
  settings changes nothing, and the result is a subsequence of the input list: entries
  are dropped, never added, repeated or reordered.
\<close>

theorem C7_filter_idempotent_subsequence:
  "filteredOpportunities (filteredOpportunities opps q os ds eq) q os ds eq
     = filteredOpportunities opps q os ds eq \<and>
   subseq (filteredOpportunities opps q os ds eq) opps"
  by (simp add: filteredOpportunities_def)


section \<open>Properties of binary64 rounding\<close>

lemma round_half_even_err: "\<bar>of_int (round_half_even y) - y\<bar> \<le> 1 / 2"
proof -
  have "of_int \<lfloor>y\<rfloor> \<le> y" "y < of_int \<lfloor>y\<rfloor> + 1" by linarith+
  then show ?thesis
    by (auto simp: round_half_even_def Let_def)
qed

lemma quantum_down_pos: "0 < q \<Longrightarrow> 0 < quantum_down n q x"
  by (induction n arbitrary: q) simp_all

lemma quantum_up_pos: "0 < q \<Longrightarrow> 0 < quantum_up n q x"
  by (induction n arbitrary: q) simp_all

lemma quantum_pos: "0 < quantum x"
  by (simp add: quantum_def quantum_down_pos quantum_up_pos)

lemma quantum_down_le:
  "0 < q \<Longrightarrow> quantum_down n q x \<le> max (\<bar>x\<bar> / 2 ^ 52) (q / 2 ^ n)"
proof (induction n arbitrary: q)
  case 0
  then show ?case by simp
next
  case (Suc n)
  show ?case
  proof (cases "\<bar>x\<bar> < 2 ^ 52 * q")
    case True
    have "quantum_down n (q / 2) x \<le> max (\<bar>x\<bar> / 2 ^ 52) (q / 2 / 2 ^ n)"
      using Suc.prems by (intro Suc.IH) simp
    with True show ?thesis by simp
  next
    case False
    then have "q \<le> \<bar>x\<bar> / 2 ^ 52" by (simp add: field_simps)
    with False show ?thesis by simp
  qed
qed

lemma quantum_small:
  assumes "\<bar>x\<bar> \<le> 4096"
  shows "quantum x \<le> 1 / 2 ^ 40"
proof -
  have lt: "\<bar>x\<bar> < 2 ^ 52" using assms by simp
  have "quantum x \<le> max (\<bar>x\<bar> / 2 ^ 52) (1 / 2 ^ 1074)"
    using quantum_down_le [of 1 1074 x] lt by (simp add: quantum_def)
  moreover have "\<bar>x\<bar> / 2 ^ 52 \<le> 1 / 2 ^ 40" using assms by simp
  moreover have "(1::rat) / 2 ^ 1074 \<le> 1 / 2 ^ 40"
    by (intro divide_left_mono power_increasing) simp_all
  ultimately show ?thesis by simp
qed

lemma fl_close:
  assumes "\<bar>x\<bar> \<le> 4096"
  shows "\<bar>fl x - x\<bar> \<le> 1 / 1000000"
proof -
  define q where "q = quantum x"
  have q: "0 < q" "q \<le> 1 / 2 ^ 40"
    using quantum_pos [of x] quantum_small [OF assms] by (simp_all add: q_def)
  have "fl x - x = (of_int (round_half_even (x / q)) - x / q) * q"
    using q(1) by (simp add: fl_def q_def field_simps)
  then have "\<bar>fl x - x\<bar> = \<bar>of_int (round_half_even (x / q)) - x / q\<bar> * q"
    using q(1) by (simp add: abs_mult)
  also have "\<dots> \<le> 1 / 2 * q"
    using round_half_even_err [of "x / q"] q(1) by (intro mult_right_mono) simp_all
  also have "\<dots> \<le> 1 / 1000000" using q(2) by simp
  finally show ?thesis .
qed

lemma quantum_down_eq:
  "0 < q \<Longrightarrow> k \<le> n \<Longrightarrow> 2 ^ 52 * (q / 2 ^ k) \<le> \<bar>x\<bar> \<Longrightarrow> \<bar>x\<bar> < 2 ^ 53 * (q / 2 ^ k)
     \<Longrightarrow> quantum_down n q x = q / 2 ^ k"
proof (induction k arbitrary: n q)
  case 0
  then show ?case by (cases n) simp_all
next
  case (Suc k)
  then obtain m where n: "n = Suc m" and km: "k \<le> m" by (cases n) simp_all
  have "q / 2 ^ k \<le> q" using Suc.prems(1) by (simp add: field_simps)
  then have "2 ^ 53 * (q / 2 ^ Suc k) \<le> 2 ^ 52 * q" by (simp add: field_simps)
  with Suc.prems(4) have lt: "\<bar>x\<bar> < 2 ^ 52 * q" by linarith
  have "quantum_down m (q / 2) x = q / 2 / 2 ^ k"
    using Suc.prems km by (intro Suc.IH) (simp_all add: field_simps)
  with lt n show ?case by simp
qed

lemma quantum_eq:
  assumes "0 < k" "k \<le> 1074" "2 ^ 52 \<le> \<bar>x\<bar> * 2 ^ k" "\<bar>x\<bar> * 2 ^ k < 2 ^ 53"
  shows "quantum x = 1 / 2 ^ k"
proof -
  have "(2::rat) ^ 1 \<le> 2 ^ k" using assms(1) by (intro power_increasing) simp_all
  then have "\<bar>x\<bar> * 2 \<le> \<bar>x\<bar> * 2 ^ k" by (intro mult_left_mono) simp_all
  with assms(4) have "\<bar>x\<bar> < 2 ^ 52" by simp
  moreover have "quantum_down 1074 1 x = 1 / 2 ^ k"
    using assms by (intro quantum_down_eq) (simp_all add: field_simps)
  ultimately show ?thesis by (simp add: quantum_def)
qed

lemma round_half_even_near:
  assumes "\<bar>y - of_int n\<bar> < 1 / 2"
  shows "round_half_even y = n"
proof (cases "of_int n \<le> y")
  case True
  with assms have "\<lfloor>y\<rfloor> = n" by (intro floor_unique) linarith+
  with assms True show ?thesis by (simp add: round_half_even_def Let_def)
next
  case False
  with assms have "\<lfloor>y\<rfloor> = n - 1" by (intro floor_unique) (simp, linarith)+
  with assms False show ?thesis by (simp add: round_half_even_def Let_def)
qed

text \<open>
  How a rounding is checked without running the search: \<open>k\<close> places \<open>x\<close> in its binade
  and \<open>n\<close> is the integer nearest to \<open>x * 2^k\<close>.
\<close>

lemma fl_eqI:
  assumes "0 < k" "k \<le> 1074" "2 ^ 52 \<le> \<bar>x\<bar> * 2 ^ k" "\<bar>x\<bar> * 2 ^ k < 2 ^ 53"
    and "\<bar>x * 2 ^ k - of_int n\<bar> < 1 / 2" and "y * 2 ^ k = of_int n"
  shows "fl x = y"
proof -
  have q: "quantum x = 1 / 2 ^ k" using assms(1-4) by (rule quantum_eq)
  have "round_half_even (x * 2 ^ k) = n" using assms(5) by (rule round_half_even_near)
  then have "fl x = of_int n / 2 ^ k" by (simp add: fl_def q)
  also have "\<dots> = y" using assms(6) by (simp add: field_simps)
  finally show ?thesis .
qed

lemma round_half_even_tie:
  assumes "\<bar>y - of_int n\<bar> = 1 / 2" and "even n"
  shows "round_half_even y = n"
proof (cases "of_int n \<le> y")
  case True
  with assms(1) have y: "y = of_int n + 1 / 2" by linarith
  then have "\<lfloor>y\<rfloor> = n" by (intro floor_unique) simp_all
  with y assms(2) show ?thesis by (simp add: round_half_even_def Let_def)
next
  case False
  with assms(1) have y: "y = of_int (n - 1) + 1 / 2" by simp
  then have "\<lfloor>y\<rfloor> = n - 1" by (intro floor_unique) simp_all
  moreover have "odd (n - 1)" using assms(2) by simp
  ultimately show ?thesis using y by (simp add: round_half_even_def Let_def)
qed

lemma fl_eqI_tie:
  assumes "0 < k" "k \<le> 1074" "2 ^ 52 \<le> \<bar>x\<bar> * 2 ^ k" "\<bar>x\<bar> * 2 ^ k < 2 ^ 53"
    and "\<bar>x * 2 ^ k - of_int n\<bar> = 1 / 2" and "even n" and "y * 2 ^ k = of_int n"
  shows "fl x = y"
proof -
  have q: "quantum x = 1 / 2 ^ k" using assms(1-4) by (rule quantum_eq)
  have "round_half_even (x * 2 ^ k) = n" using assms(5,6) by (rule round_half_even_tie)
  then have "fl x = of_int n / 2 ^ k" by (simp add: fl_def q)
  also have "\<dots> = y" using assms(7) by (simp add: field_simps)
  finally show ?thesis .
qed


section \<open>Properties of the simulated quotes\<close>

lemma Math_round_bounds: "x - 1 / 2 < Math_round x \<and> Math_round x \<le> x + 1 / 2"
  unfolding Math_round_def by linarith

lemma Math_round_whole: "of_int \<lfloor>Math_round x\<rfloor> = Math_round x"
  by (simp add: Math_round_def)

lemma rounded_half_up_Math_round: "rounded_half_up x (Math_round x)"
  using Math_round_bounds [of x] by (simp add: rounded_half_up_def Math_round_whole)

lemma discounted_price:
  assumes r: "0 \<le> r" "r < 1"
    and lo: "800 \<le> lo" "0 \<le> spread" "lo + spread \<le> 2600"
    and k: "1 / 10 \<le> k" "k \<le> 1 / 5"
    and c: "1 / 5 \<le> c" "c \<le> 1 / 4"
  defines "b \<equiv> dadd lo (dmul r spread)"
  defines "f \<equiv> dmul b (lit k)"
  defines "d \<equiv> dmul b (lit c)"
  defines "t \<equiv> dsub (dadd b f) d"
  shows "\<bar>b - (lo + r * spread)\<bar> \<le> 1 / 100000"
    and "100 \<le> d"
    and "\<bar>t - (b + f - d)\<bar> \<le> 1 / 100000"
proof -
  have rs: "0 \<le> r * spread" "r * spread \<le> spread"
    using r lo(2) by (simp_all add: mult_left_le_one_le)
  have p: "\<bar>dmul r spread - r * spread\<bar> \<le> 1 / 1000000"
    unfolding dmul_def using rs lo by (intro fl_close) simp
  have b1: "\<bar>b - (lo + dmul r spread)\<bar> \<le> 1 / 1000000"
    unfolding b_def dadd_def using p rs lo by (intro fl_close) linarith
  show b2: "\<bar>b - (lo + r * spread)\<bar> \<le> 1 / 100000"
    using p b1 by linarith
  have bb: "799 \<le> b" "b \<le> 2601" using b2 rs lo by linarith+
  have "\<bar>lit k - k\<bar> \<le> 1 / 1000000"
    unfolding lit_def using k by (intro fl_close) simp
  then have kb: "9 / 100 \<le> lit k" "lit k \<le> 21 / 100" using k by linarith+
  have "\<bar>lit c - c\<bar> \<le> 1 / 1000000"
    unfolding lit_def using c by (intro fl_close) simp
  then have cb: "19 / 100 \<le> lit c" "lit c \<le> 26 / 100" using c by linarith+
  have "0 * (0::rat) \<le> b * lit k" "b * lit k \<le> 2601 * (21 / 100)"
    using bb kb by (intro mult_mono; simp)+
  then have bf: "0 \<le> b * lit k" "b * lit k \<le> 547" by simp_all
  have f1: "\<bar>f - b * lit k\<bar> \<le> 1 / 1000000"
    unfolding f_def dmul_def using bf by (intro fl_close) simp
  have "799 * (19 / 100) \<le> b * lit c" "b * lit c \<le> 2601 * (26 / 100)"
    using bb cb by (intro mult_mono; simp)+
  then have bd: "151 \<le> b * lit c" "b * lit c \<le> 677" by simp_all
  have d1: "\<bar>d - b * lit c\<bar> \<le> 1 / 1000000"
    unfolding d_def dmul_def using bd by (intro fl_close) simp
  show d2: "100 \<le> d" using d1 bd by linarith
  have s1: "\<bar>dadd b f - (b + f)\<bar> \<le> 1 / 1000000"
    unfolding dadd_def using bb f1 bf by (intro fl_close) linarith
  have "\<bar>t - (dadd b f - d)\<bar> \<le> 1 / 1000000"
    unfolding t_def dsub_def using s1 bb f1 bf d1 bd by (intro fl_close) linarith
  with s1 show "\<bar>t - (b + f - d)\<bar> \<le> 1 / 100000" by linarith
qed

lemma stored_total_relation:
  assumes "\<bar>t - (b + f - d)\<bar> \<le> 1 / 100000" and "100 \<le> d"
  shows "Math_round t < Math_round b + Math_round f"
    and "\<bar>Math_round t - (Math_round b + Math_round f - Math_round d)\<bar> \<le> 2"
proof -
  define T B F D where "T = \<lfloor>t + 1 / 2\<rfloor>" and "B = \<lfloor>b + 1 / 2\<rfloor>"
    and "F = \<lfloor>f + 1 / 2\<rfloor>" and "D = \<lfloor>d + 1 / 2\<rfloor>"
  have fl: "of_int T \<le> t + 1 / 2" "t + 1 / 2 < of_int T + 1"
    "of_int B \<le> b + 1 / 2" "b + 1 / 2 < of_int B + 1"
    "of_int F \<le> f + 1 / 2" "f + 1 / 2 < of_int F + 1"
    "of_int D \<le> d + 1 / 2" "d + 1 / 2 < of_int D + 1"
    unfolding T_def B_def F_def D_def by linarith+
  have "(of_int T :: rat) < of_int B + of_int F"
    using fl assms by linarith
  then show "Math_round t < Math_round b + Math_round f"
    by (simp add: Math_round_def T_def B_def F_def)
  have "(of_int T :: rat) - (of_int B + of_int F - of_int D) < 3"
    and "- 3 < (of_int T :: rat) - (of_int B + of_int F - of_int D)"
    using fl assms by linarith+
  then have "(of_int (T - (B + F - D)) :: rat) < of_int 3"
    and "(of_int (- 3) :: rat) < of_int (T - (B + F - D))"
    by simp_all
  then have "T - (B + F - D) < 3" and "- 3 < T - (B + F - D)"
    by (simp_all only: of_int_less_iff)
  then have "\<bar>T - (B + F - D)\<bar> \<le> 2" by linarith
  then have "(of_int \<bar>T - (B + F - D)\<bar> :: rat) \<le> of_int 2"
    by (simp only: of_int_le_iff)
  then show "\<bar>Math_round t - (Math_round b + Math_round f - Math_round d)\<bar> \<le> 2"
    by (simp add: Math_round_def T_def B_def F_def D_def)
qed

lemma quoteLocals_fields:
  "baseRate (quoteLocals r1 r2 r3) = dadd 1800 (dmul r1 800)"
  "fuelSurcharge (quoteLocals r1 r2 r3) = dmul (baseRate (quoteLocals r1 r2 r3)) (lit 0.18)"
  "poolingDiscount (quoteLocals r1 r2 r3) = dmul (baseRate (quoteLocals r1 r2 r3)) (lit 0.22)"
  "total (quoteLocals r1 r2 r3)
     = dsub (dadd (baseRate (quoteLocals r1 r2 r3)) (fuelSurcharge (quoteLocals r1 r2 r3)))
         (poolingDiscount (quoteLocals r1 r2 r3))"
  "marketAverage (quoteLocals r1 r2 r3) = dmul (total (quoteLocals r1 r2 r3)) (lit 1.35)"
  "poolingProbability (quoteLocals r1 r2 r3) = dadd 65 (dmul r2 25)"
  "additionalSavings (quoteLocals r1 r2 r3)
     = dadd (dmul (baseRate (quoteLocals r1 r2 r3)) (lit 0.12)) (dmul r3 100)"
  by (simp_all add: quoteLocals_def Let_def)

lemma handleCalculate_fields:
  "baseRate (handleCalculate r1 r2 r3) = Math_round (baseRate (quoteLocals r1 r2 r3))"
  "fuelSurcharge (handleCalculate r1 r2 r3) = Math_round (fuelSurcharge (quoteLocals r1 r2 r3))"
  "poolingDiscount (handleCalculate r1 r2 r3)
     = Math_round (poolingDiscount (quoteLocals r1 r2 r3))"
  "total (handleCalculate r1 r2 r3) = Math_round (total (quoteLocals r1 r2 r3))"
  "marketAverage (handleCalculate r1 r2 r3) = Math_round (marketAverage (quoteLocals r1 r2 r3))"
  "poolingProbability (handleCalculate r1 r2 r3)
     = Math_round (poolingProbability (quoteLocals r1 r2 r3))"
  "additionalSavings (handleCalculate r1 r2 r3)
     = Math_round (additionalSavings (quoteLocals r1 r2 r3))"
  by (simp_all add: handleCalculate_def roundQuote_def)

lemma reviewLocals_fields:
  "rv_baseRate (reviewLocals r) = dadd 850 (dmul r 400)"
  "rv_fuelSurcharge (reviewLocals r) = dmul (rv_baseRate (reviewLocals r)) (lit 0.18)"
  "rv_poolingDiscount (reviewLocals r) = dmul (rv_baseRate (reviewLocals r)) (lit 0.23)"
  "finalPrice (reviewLocals r)
     = dsub (dadd (rv_baseRate (reviewLocals r)) (rv_fuelSurcharge (reviewLocals r)))
         (rv_poolingDiscount (reviewLocals r))"
  "marketRate (reviewLocals r) = dmul (rv_baseRate (reviewLocals r)) (lit 1.35)"
  "rv_poolingProbability (reviewLocals r) = 78"
  "potentialSavings (reviewLocals r) = dmul (rv_poolingDiscount (reviewLocals r)) (lit 1.5)"
  by (simp_all add: reviewLocals_def Let_def)

lemma reviewQuote_fields:
  "rv_baseRate (reviewQuote r) = Math_round (rv_baseRate (reviewLocals r))"
  "rv_fuelSurcharge (reviewQuote r) = Math_round (rv_fuelSurcharge (reviewLocals r))"
  "rv_poolingDiscount (reviewQuote r) = Math_round (rv_poolingDiscount (reviewLocals r))"
  "finalPrice (reviewQuote r) = Math_round (finalPrice (reviewLocals r))"
  "marketRate (reviewQuote r) = Math_round (marketRate (reviewLocals r))"
  "rv_poolingProbability (reviewQuote r) = 78"
  "potentialSavings (reviewQuote r) = Math_round (potentialSavings (reviewLocals r))"
  by (simp_all add: reviewQuote_def reviewLocals_def Let_def)

lemma quote_locals_close:
  assumes "0 \<le> r" "r < 1"
  shows "\<bar>baseRate (quoteLocals r r2 r3) - (1800 + r * 800)\<bar> \<le> 1 / 100000"
    and "100 \<le> poolingDiscount (quoteLocals r r2 r3)"
    and "\<bar>total (quoteLocals r r2 r3)
            - (baseRate (quoteLocals r r2 r3) + fuelSurcharge (quoteLocals r r2 r3)
               - poolingDiscount (quoteLocals r r2 r3))\<bar> \<le> 1 / 100000"
  unfolding quoteLocals_fields
  using discounted_price [OF assms, of 1800 800 "0.18" "0.22"] by simp_all

lemma review_locals_close:
  assumes "0 \<le> r" "r < 1"
  shows "\<bar>rv_baseRate (reviewLocals r) - (850 + r * 400)\<bar> \<le> 1 / 100000"
    and "100 \<le> rv_poolingDiscount (reviewLocals r)"
    and "\<bar>finalPrice (reviewLocals r)
            - (rv_baseRate (reviewLocals r) + rv_fuelSurcharge (reviewLocals r)
               - rv_poolingDiscount (reviewLocals r))\<bar> \<le> 1 / 100000"
  unfolding reviewLocals_fields
  using discounted_price [OF assms, of 850 400 "0.18" "0.23"] by simp_all

text \<open>
  Claim C3, as the code has it. In both simulated quote calculations the total is
  computed as base rate plus fuel surcharge minus the pooling discount, in binary64,
  the discount being the base rate times 0.22 in \<open>handleCalculate\<close> and times 0.23 in
  \<open>ReviewStep\<close>, and the stored total is \<open>Math.round\<close> of that value. So for every
  draw the stored total is strictly below the stored base rate plus the stored fuel
  surcharge, and it differs from the stored base rate plus fuel surcharge minus the
  stored discount by at most two dollars of rounding.
\<close>

theorem C3_total_subtracts_pooling_discount:
  assumes "Math_random r"
  shows "total (quoteLocals r r2 r3)
           = dsub (dadd (baseRate (quoteLocals r r2 r3)) (fuelSurcharge (quoteLocals r r2 r3)))
               (poolingDiscount (quoteLocals r r2 r3)) \<and>
         poolingDiscount (quoteLocals r r2 r3) = dmul (baseRate (quoteLocals r r2 r3)) (lit 0.22) \<and>
         total (handleCalculate r r2 r3) = Math_round (total (quoteLocals r r2 r3)) \<and>
         total (handleCalculate r r2 r3)
           < baseRate (handleCalculate r r2 r3) + fuelSurcharge (handleCalculate r r2 r3) \<and>
         \<bar>total (handleCalculate r r2 r3)
            - (baseRate (handleCalculate r r2 r3) + fuelSurcharge (handleCalculate r r2 r3)
               - poolingDiscount (handleCalculate r r2 r3))\<bar> \<le> 2 \<and>
         finalPrice (reviewLocals r)
           = dsub (dadd (rv_baseRate (reviewLocals r)) (rv_fuelSurcharge (reviewLocals r)))
               (rv_poolingDiscount (reviewLocals r)) \<and>
         rv_poolingDiscount (reviewLocals r) = dmul (rv_baseRate (reviewLocals r)) (lit 0.23) \<and>
         finalPrice (reviewQuote r) = Math_round (finalPrice (reviewLocals r)) \<and>
         finalPrice (reviewQuote r)
           < rv_baseRate (reviewQuote r) + rv_fuelSurcharge (reviewQuote r) \<and>
         \<bar>finalPrice (reviewQuote r)
            - (rv_baseRate (reviewQuote r) + rv_fuelSurcharge (reviewQuote r)
               - rv_poolingDiscount (reviewQuote r))\<bar> \<le> 2"
proof -
  from assms have r: "0 \<le> r" "r < 1" by (simp_all add: Math_random_def)
  note q = stored_total_relation [OF quote_locals_close(3) [OF r] quote_locals_close(2) [OF r]]
  note v = stored_total_relation [OF review_locals_close(3) [OF r] review_locals_close(2) [OF r]]
  show ?thesis
    unfolding handleCalculate_fields reviewQuote_fields
    using q [of r2 r3] v quoteLocals_fields(3,4) [of r r2 r3] reviewLocals_fields(3,4) [of r]
    by blast
qed

lemma draw_values:
  "fl (1 / 4) = 1 / 4"
  "fl (3665038759253 / 1125899906842624) = 3665038759253 / 1125899906842624"
  "fl (2251799813685247 / 4503599627370496) = 2251799813685247 / 4503599627370496"
proof -
  show "fl (1 / 4) = 1 / 4"
    by (rule fl_eqI [where k = 54 and n = 4503599627370496]) simp_all
  show "fl (3665038759253 / 1125899906842624) = 3665038759253 / 1125899906842624"
    by (rule fl_eqI [where k = 61 and n = 7505999378950144]) simp_all
  show "fl (2251799813685247 / 4503599627370496) = 2251799813685247 / 4503599627370496"
    by (rule fl_eqI [where k = 54 and n = 9007199254740988]) simp_all
qed

theorem C3_total_subtracts_pooling_discount_witness:
  "Math_random (1 / 4) \<and>
   total (handleCalculate (1 / 4) (1 / 4) (1 / 4))
     < baseRate (handleCalculate (1 / 4) (1 / 4) (1 / 4))
       + fuelSurcharge (handleCalculate (1 / 4) (1 / 4) (1 / 4)) \<and>
   finalPrice (reviewQuote (1 / 4))
     < rv_baseRate (reviewQuote (1 / 4)) + rv_fuelSurcharge (reviewQuote (1 / 4))"
proof -
  have h: "Math_random (1 / 4)"
    unfolding Math_random_def draw_values by simp
  from C3_total_subtracts_pooling_discount [OF h, of "1 / 4" "1 / 4"] h
  show ?thesis by blast
qed

lemma lit_values:
  "lit 0.18 = 3242591731706757 / 18014398509481984"
  "lit 0.22 = 7926335344172073 / 36028797018963968"
  "lit 0.23 = 8286623314361713 / 36028797018963968"
  "lit 1.35 = 3039929748475085 / 2251799813685248"
proof -
  show "lit 0.18 = 3242591731706757 / 18014398509481984"
    unfolding lit_def by (rule fl_eqI [where k = 55 and n = 6485183463413514]) simp_all
  show "lit 0.22 = 7926335344172073 / 36028797018963968"
    unfolding lit_def by (rule fl_eqI [where k = 55 and n = 7926335344172073]) simp_all
  show "lit 0.23 = 8286623314361713 / 36028797018963968"
    unfolding lit_def by (rule fl_eqI [where k = 55 and n = 8286623314361713]) simp_all
  show "lit 1.35 = 3039929748475085 / 2251799813685248"
    unfolding lit_def by (rule fl_eqI [where k = 52 and n = 6079859496950170]) simp_all
qed

lemma Math_round_values:
  "Math_round 2000 = 2000" "Math_round 360 = 360" "Math_round 440 = 440"
  "Math_round 1920 = 1920" "Math_round (3461 / 2) = 1731"
  "Math_round (483 / 2) = 242" "Math_round (1995 / 2) = 998" "Math_round (2835 / 2) = 1418"
  by code_simp+

lemma quarter_steps:
  "dmul (1 / 4) 800 = 200"
  "dadd 1800 200 = 2000"
  "dmul 2000 (3242591731706757 / 18014398509481984) = 360"
  "dmul 2000 (7926335344172073 / 36028797018963968) = 440"
  "dadd 2000 360 = 2360"
  "dsub 2360 440 = 1920"
proof -
  show "dmul (1 / 4) 800 = 200"
    unfolding dmul_def by (rule fl_eqI [where k = 45 and n = 7036874417766400]) simp_all
  show "dadd 1800 200 = 2000"
    unfolding dadd_def by (rule fl_eqI [where k = 42 and n = 8796093022208000]) simp_all
  show "dmul 2000 (3242591731706757 / 18014398509481984) = 360"
    unfolding dmul_def by (rule fl_eqI [where k = 44 and n = 6333186975989760]) simp_all
  show "dmul 2000 (7926335344172073 / 36028797018963968) = 440"
    unfolding dmul_def by (rule fl_eqI [where k = 44 and n = 7740561859543040]) simp_all
  show "dadd 2000 360 = 2360"
    unfolding dadd_def by (rule fl_eqI [where k = 41 and n = 5189694883102720]) simp_all
  show "dsub 2360 440 = 1920"
    unfolding dsub_def by (rule fl_eqI [where k = 42 and n = 8444249301319680]) simp_all
qed

lemma quarter_locals:
  "baseRate (quoteLocals (1 / 4) 0 0) = 2000"
  "fuelSurcharge (quoteLocals (1 / 4) 0 0) = 360"
  "poolingDiscount (quoteLocals (1 / 4) 0 0) = 440"
  "total (quoteLocals (1 / 4) 0 0) = 1920"
  by (simp_all only: quoteLocals_fields lit_values quarter_steps)

text \<open>
  Claim C3 as stated fails: at the draw \<open>1 / 4\<close> the base rate is 2000, the fuel
  surcharge 360 and the pooling discount 440; the total is 1920, not the individual
  price 2360.
\<close>

theorem C3_committed_total_counterexample:
  "total (handleCalculate (1 / 4) 0 0) = 1920 \<and>
   baseRate (handleCalculate (1 / 4) 0 0) + fuelSurcharge (handleCalculate (1 / 4) 0 0) = 2360 \<and>
   poolingDiscount (handleCalculate (1 / 4) 0 0) = 440 \<and>
   total (handleCalculate (1 / 4) 0 0)
     \<noteq> baseRate (handleCalculate (1 / 4) 0 0) + fuelSurcharge (handleCalculate (1 / 4) 0 0)"
  by (simp add: handleCalculate_fields quarter_locals Math_round_values)

text \<open>
  Claim C6, as the code has it. The quote amounts are computed in fractional dollars as
  binary64 numbers, the base rate lying within rounding error of \<open>1800 + r * 800\<close>
  (\<open>850 + r * 400\<close> in the review step), and every stored amount is its unrounded value
  rounded on its own to a whole number of dollars by \<open>Math.round\<close>: the integer within
  half a dollar, a tie going up. The pooling probability of the review step is the
  literal 78.
\<close>

theorem C6_quote_fields_rounded_to_whole_dollars:
  assumes "Math_random r1" and "Math_random r2" and "Math_random r3"
  shows
  "rounded_half_up (baseRate (quoteLocals r1 r2 r3)) (baseRate (handleCalculate r1 r2 r3)) \<and>
   rounded_half_up (fuelSurcharge (quoteLocals r1 r2 r3))
     (fuelSurcharge (handleCalculate r1 r2 r3)) \<and>
   rounded_half_up (poolingDiscount (quoteLocals r1 r2 r3))
     (poolingDiscount (handleCalculate r1 r2 r3)) \<and>
   rounded_half_up (total (quoteLocals r1 r2 r3)) (total (handleCalculate r1 r2 r3)) \<and>
   rounded_half_up (marketAverage (quoteLocals r1 r2 r3))
     (marketAverage (handleCalculate r1 r2 r3)) \<and>
   rounded_half_up (poolingProbability (quoteLocals r1 r2 r3))
     (poolingProbability (handleCalculate r1 r2 r3)) \<and>
   rounded_half_up (additionalSavings (quoteLocals r1 r2 r3))
     (additionalSavings (handleCalculate r1 r2 r3)) \<and>
   rounded_half_up (rv_baseRate (reviewLocals r1)) (rv_baseRate (reviewQuote r1)) \<and>
   rounded_half_up (rv_fuelSurcharge (reviewLocals r1)) (rv_fuelSurcharge (reviewQuote r1)) \<and>
   rounded_half_up (rv_poolingDiscount (reviewLocals r1))
     (rv_poolingDiscount (reviewQuote r1)) \<and>
   rounded_half_up (finalPrice (reviewLocals r1)) (finalPrice (reviewQuote r1)) \<and>
   rounded_half_up (marketRate (reviewLocals r1)) (marketRate (reviewQuote r1)) \<and>
   rounded_half_up (potentialSavings (reviewLocals r1)) (potentialSavings (reviewQuote r1)) \<and>
   rv_poolingProbability (reviewQuote r1) = 78 \<and>
   \<bar>baseRate (quoteLocals r1 r2 r3) - (1800 + r1 * 800)\<bar> \<le> 1 / 100000 \<and>
   \<bar>rv_baseRate (reviewLocals r1) - (850 + r1 * 400)\<bar> \<le> 1 / 100000"
proof -
  from assms(1) have r: "0 \<le> r1" "r1 < 1" by (simp_all add: Math_random_def)
  show ?thesis
    using quote_locals_close(1) [OF r, of r2 r3] review_locals_close(1) [OF r]
    by (simp only: handleCalculate_fields reviewQuote_fields rounded_half_up_Math_round
        simp_thms)
qed

lemma tie_steps:
  "dmul (3665038759253 / 1125899906842624) 800 = 91625968981325 / 35184372088832"
  "dadd 1800 (91625968981325 / 35184372088832) = 3963968483054933 / 2199023255552"
  "dmul (3963968483054933 / 2199023255552) (3242591731706757 / 18014398509481984) = 5708114615599103 / 17592186044416"
  "dmul (3963968483054933 / 2199023255552) (7926335344172073 / 36028797018963968) = 3488292265088341 / 8796093022208"
  "dadd (3963968483054933 / 2199023255552) (5708114615599103 / 17592186044416) = 4677482810004821 / 2199023255552"
  "dsub (4677482810004821 / 2199023255552) (3488292265088341 / 8796093022208) = 3461 / 2"
proof -
  show "dmul (3665038759253 / 1125899906842624) 800 = 91625968981325 / 35184372088832"
    unfolding dmul_def by (rule fl_eqI [where k = 51 and n = 5864062014804800]) simp_all
  show "dadd 1800 (91625968981325 / 35184372088832) = 3963968483054933 / 2199023255552"
    unfolding dadd_def by (rule fl_eqI [where k = 42 and n = 7927936966109866]) simp_all
  show "dmul (3963968483054933 / 2199023255552) (3242591731706757 / 18014398509481984) = 5708114615599103 / 17592186044416"
    unfolding dmul_def by (rule fl_eqI [where k = 44 and n = 5708114615599103]) simp_all
  show "dmul (3963968483054933 / 2199023255552) (7926335344172073 / 36028797018963968) = 3488292265088341 / 8796093022208"
    unfolding dmul_def by (rule fl_eqI [where k = 44 and n = 6976584530176682]) simp_all
  show "dadd (3963968483054933 / 2199023255552) (5708114615599103 / 17592186044416) = 4677482810004821 / 2199023255552"
    unfolding dadd_def by (rule fl_eqI [where k = 41 and n = 4677482810004821]) simp_all
  show "dsub (4677482810004821 / 2199023255552) (3488292265088341 / 8796093022208) = 3461 / 2"
    unfolding dsub_def by (rule fl_eqI_tie [where k = 42 and n = 7610819487465472]) simp_all
qed

lemma tie_total:
  "total (quoteLocals (3665038759253 / 1125899906842624) (1 / 4) (1 / 4)) = 3461 / 2"
  by (simp only: quoteLocals_fields lit_values tie_steps)

lemma review_tie_steps:
  "dmul (2251799813685247 / 4503599627370496) 400 = 7036874417766397 / 35184372088832"
  "dadd 850 (7036874417766397 / 35184372088832) = 1050"
  "dmul 1050 (3242591731706757 / 18014398509481984) = 189"
  "dmul 1050 (8286623314361713 / 36028797018963968) = 483 / 2"
  "dadd 1050 189 = 1239"
  "dsub 1239 (483 / 2) = 1995 / 2"
  "dmul 1050 (3039929748475085 / 2251799813685248) = 2835 / 2"
proof -
  show "dmul (2251799813685247 / 4503599627370496) 400 = 7036874417766397 / 35184372088832"
    unfolding dmul_def by (rule fl_eqI [where k = 45 and n = 7036874417766397]) simp_all
  show "dadd 850 (7036874417766397 / 35184372088832) = 1050"
    unfolding dadd_def by (rule fl_eqI [where k = 42 and n = 4617948836659200]) simp_all
  show "dmul 1050 (3242591731706757 / 18014398509481984) = 189"
    unfolding dmul_def by (rule fl_eqI [where k = 45 and n = 6649846324789248]) simp_all
  show "dmul 1050 (8286623314361713 / 36028797018963968) = 483 / 2"
    unfolding dmul_def by (rule fl_eqI [where k = 45 and n = 8497025859452928]) simp_all
  show "dadd 1050 189 = 1239"
    unfolding dadd_def by (rule fl_eqI [where k = 42 and n = 5449179627257856]) simp_all
  show "dsub 1239 (483 / 2) = 1995 / 2"
    unfolding dsub_def by (rule fl_eqI [where k = 43 and n = 8774102789652480]) simp_all
  show "dmul 1050 (3039929748475085 / 2251799813685248) = 2835 / 2"
    unfolding dmul_def by (rule fl_eqI [where k = 42 and n = 6234230929489920]) simp_all
qed

lemma review_tie_locals:
  "rv_poolingDiscount (reviewLocals (2251799813685247 / 4503599627370496)) = 483 / 2"
  "finalPrice (reviewLocals (2251799813685247 / 4503599627370496)) = 1995 / 2"
  "marketRate (reviewLocals (2251799813685247 / 4503599627370496)) = 2835 / 2"
  by (simp_all only: reviewLocals_fields lit_values review_tie_steps)

text \<open>
  Two draws at which a binary64 rounding decides the stored amount: the total
  \<open>1730.5\<close> of the first is stored as 1731, and the discount \<open>241.5\<close>, the final price
  \<open>997.5\<close> and the market rate \<open>1417.5\<close> of the second as 242, 998 and 1418.
\<close>

theorem C6_quote_fields_rounded_to_whole_dollars_witness:
  "Math_random (3665038759253 / 1125899906842624) \<and> Math_random (1 / 4) \<and>
   Math_random (2251799813685247 / 4503599627370496) \<and>
   total (quoteLocals (3665038759253 / 1125899906842624) (1 / 4) (1 / 4)) = 3461 / 2 \<and>
   total (handleCalculate (3665038759253 / 1125899906842624) (1 / 4) (1 / 4)) = 1731 \<and>
   rounded_half_up (3461 / 2) 1731 \<and>
   rv_poolingDiscount (reviewQuote (2251799813685247 / 4503599627370496)) = 242 \<and>
   finalPrice (reviewQuote (2251799813685247 / 4503599627370496)) = 998 \<and>
   marketRate (reviewQuote (2251799813685247 / 4503599627370496)) = 1418 \<and>
   rounded_half_up (1995 / 2) 998"
proof -
  have h: "Math_random (3665038759253 / 1125899906842624)" "Math_random (1 / 4)"
    "Math_random (2251799813685247 / 4503599627370496)"
    unfolding Math_random_def draw_values by simp_all
  note a = C6_quote_fields_rounded_to_whole_dollars [OF h(1) h(2) h(2)]
  note b = C6_quote_fields_rounded_to_whole_dollars [OF h(3) h(2) h(2)]
  have "rounded_half_up (3461 / 2) 1731"
    using a by (simp only: handleCalculate_fields tie_total Math_round_values)
  moreover have "rounded_half_up (1995 / 2) 998"
    using b by (simp only: reviewQuote_fields review_tie_locals Math_round_values)
  ultimately show ?thesis
    using h
    by (simp only: handleCalculate_fields reviewQuote_fields tie_total review_tie_locals
        Math_round_values simp_thms)
qed

lemma cents_steps:
  "dmul (9 / 1024) 800 = 225 / 32"
  "dadd 1800 (225 / 32) = 57825 / 32"
  "dmul (57825 / 32) (3242591731706757 / 18014398509481984) = 20817 / 64"
proof -
  show "dmul (9 / 1024) 800 = 225 / 32"
    unfolding dmul_def by (rule fl_eqI [where k = 50 and n = 7916483719987200]) simp_all
  show "dadd 1800 (225 / 32) = 57825 / 32"
    unfolding dadd_def by (rule fl_eqI [where k = 42 and n = 7947407484518400]) simp_all
  show "dmul (57825 / 32) (3242591731706757 / 18014398509481984) = 20817 / 64"
    unfolding dmul_def by (rule fl_eqI [where k = 44 and n = 5722133388853248]) simp_all
qed

lemma cents_locals:
  "baseRate (quoteLocals (9 / 1024) 0 0) = 57825 / 32"
  "fuelSurcharge (quoteLocals (9 / 1024) 0 0) = 20817 / 64"
  by (simp_all only: quoteLocals_fields lit_values cents_steps)

lemma not_whole_cents_values:
  "\<not> whole_cents (57825 / 32)" "\<not> whole_cents (20817 / 64)"
  by code_simp+

text \<open>
  Claim C6 as stated fails: at the draw \<open>9 / 1024\<close> the base rate is 1807.03125
  dollars and the fuel surcharge 325.265625 dollars, neither a whole number of cents.
\<close>

theorem C6_money_in_cents_counterexample:
  "baseRate (quoteLocals (9 / 1024) 0 0) = 57825 / 32 \<and>
   \<not> whole_cents (baseRate (quoteLocals (9 / 1024) 0 0)) \<and>
   \<not> whole_cents (fuelSurcharge (quoteLocals (9 / 1024) 0 0))"
  by (simp only: cents_locals not_whole_cents_values simp_thms)


section \<open>Properties of the countdown\<close>

lemma tick_nonneg: "0 \<le> tick t"
  by (simp add: tick_def)

lemma tick_le: "0 \<le> t \<Longrightarrow> tick t \<le> t"
  by (simp add: tick_def)

lemma ticks_nonneg: "0 \<le> t \<Longrightarrow> 0 \<le> (tick ^^ n) t"
  by (induction n) (simp_all add: tick_nonneg)

text \<open>
  Claim C9. Each tick of the pooling card's timer replaces the time left \<open>t\<close> by
  \<open>max(0, t - 1)\<close>, which is never negative. Started from a time remaining that is
  not negative, the time left after any number of ticks is not negative, and the next
  tick does not increase it.
\<close>

theorem C9_countdown_never_negative:
  "tick t = max 0 (t - 1) \<and> 0 \<le> tick t \<and>
   (0 \<le> timeRemaining opp \<longrightarrow>
      0 \<le> timeLeft_after n opp \<and> timeLeft_after (Suc n) opp \<le> timeLeft_after n opp)"
proof -
  have "timeLeft_after (Suc n) opp \<le> timeLeft_after n opp" if "0 \<le> timeRemaining opp"
    using tick_le [OF ticks_nonneg [OF that, of n]] by (simp add: timeLeft_after_def)
  then show ?thesis
    by (simp add: timeLeft_after_def tick_nonneg ticks_nonneg) (simp add: tick_def)
qed

theorem C9_countdown_never_negative_witness:
  "0 \<le> timeRemaining pool_001 \<and>
   timeLeft_after 3 pool_001 = 42 \<and> timeLeft_after (Suc 3) pool_001 = 41 \<and>
   0 \<le> timeLeft_after 3 pool_001 \<and>
   timeLeft_after (Suc 3) pool_001 \<le> timeLeft_after 3 pool_001"
proof -
  have h: "0 \<le> timeRemaining pool_001" by (simp add: pool_001_def)
  have v: "timeLeft_after 3 pool_001 = 42" "timeLeft_after (Suc 3) pool_001 = 41"
    by code_simp+
  from C9_countdown_never_negative [of 0 pool_001 3] h v show ?thesis by simp
qed

section \<open>Properties of \<open>fetchAPI\<close>\<close>

lemma fetchAPI_not_ok_raises: "\<not> ok r \<Longrightarrow> \<exists>e. fetchAPI (Response r) = Inl e"
  by (simp add: fetchAPI_def Let_def split: option.split json.split)

lemma fetchAPI_ok:
  "ok r \<Longrightarrow> fetchAPI (Response r) = (case body r of Some v \<Rightarrow> Inr v | None \<Rightarrow> Inl JsSyntaxError)"
  by (simp add: fetchAPI_def split: option.split)

lemma fetchAPI_returns_iff:
  "(\<exists>v. fetchAPI (Response r) = Inr v) \<longleftrightarrow> ok r \<and> body r \<noteq> None"
proof (cases "ok r")
  case True
  then show ?thesis by (auto simp: fetchAPI_ok split: option.splits)
next
  case False
  with fetchAPI_not_ok_raises [of r] show ?thesis by auto
qed

lemma fetchAPI_not_ok_unparsed:
  assumes "\<not> ok r"
  shows "body r = None \<Longrightarrow> fetchAPI (Response r) = Inl (JsError (Text ''Unknown error''))"
    and "body r = Some JNull \<Longrightarrow> fetchAPI (Response r) = Inl JsTypeError"
  using assms by (simp_all add: fetchAPI_def)

lemma fetchAPI_not_ok_parsed:
  assumes "\<not> ok r" and "body r = Some v" and "v \<noteq> JNull"
  shows "fetchAPI (Response r) =
     (case prop_error v of
        Some e \<Rightarrow> if truthy e then Inl (JsError (message_of e))
                  else Inl (JsError (Text (''API Error: '' @ status_text (status r))))
      | None \<Rightarrow> Inl (JsError (Text (''API Error: '' @ status_text (status r)))))"
  using assms
  by (cases v)
    (simp_all add: fetchAPI_def api_error_message_def del: status_text.simps
      split: option.split)

lemma fetchAPI_not_ok_cases:
  assumes "\<not> ok r"
  shows "body r = None \<Longrightarrow> fetchAPI (Response r) = Inl (JsError (Text ''Unknown error''))"
    and "body r = Some JNull \<Longrightarrow> fetchAPI (Response r) = Inl JsTypeError"
    and "body r = Some v \<Longrightarrow> v \<noteq> JNull \<Longrightarrow> prop_error v = Some e \<Longrightarrow> truthy e \<Longrightarrow>
           fetchAPI (Response r) = Inl (JsError (message_of e))"
    and "body r = Some v \<Longrightarrow> v \<noteq> JNull \<Longrightarrow> prop_error v = Some e \<Longrightarrow> \<not> truthy e \<Longrightarrow>
           fetchAPI (Response r)
             = Inl (JsError (Text (''API Error: '' @ status_text (status r))))"
    and "body r = Some v \<Longrightarrow> v \<noteq> JNull \<Longrightarrow> prop_error v = None \<Longrightarrow>
           fetchAPI (Response r)
             = Inl (JsError (Text (''API Error: '' @ status_text (status r))))"
  using assms fetchAPI_not_ok_unparsed [of r] fetchAPI_not_ok_parsed [of r v]
  by (simp_all del: status_text.simps)

text \<open>
  Claim C10, as the code has it. On a response that is not ok \<open>fetchAPI\<close> always
  throws and returns no value. What it throws depends on the body: an \<open>Error\<close> with the
  message \<open>Unknown error\<close> when the body is not JSON; a \<open>TypeError\<close> when the body is
  \<open>null\<close>; an \<open>Error\<close> whose message is the body's \<open>error\<close> property when that property
  is truthy (the server's message when it is a non-empty string); and an \<open>Error\<close> with
  the message \<open>API Error: \<close> followed by the status code in every other case. On a
  response that is ok it returns the parsed body when the body is JSON and raises the
  parse error of \<open>response.json()\<close> when it is not. So it returns a value exactly when
  the response is ok and its body parses. A rejected \<open>fetch\<close> is passed on.
\<close>

theorem C10_fetchAPI_outcomes:
  "(\<not> ok r \<longrightarrow> (\<exists>x. fetchAPI (Response r) = Inl x)) \<and>
   (\<not> ok r \<and> body r = None \<longrightarrow>
      fetchAPI (Response r) = Inl (JsError (Text ''Unknown error''))) \<and>
   (\<not> ok r \<and> body r = Some JNull \<longrightarrow> fetchAPI (Response r) = Inl JsTypeError) \<and>
   (\<not> ok r \<and> body r = Some v \<and> v \<noteq> JNull \<and> prop_error v = Some e \<and> truthy e \<longrightarrow>
      fetchAPI (Response r) = Inl (JsError (message_of e))) \<and>
   (\<not> ok r \<and> body r = Some (JObject kvs) \<and>
    map_of (rev kvs) ''error'' = Some (JString m) \<and> m \<noteq> [] \<longrightarrow>
      fetchAPI (Response r) = Inl (JsError (Text m))) \<and>
   (\<not> ok r \<and> body r = Some v \<and> v \<noteq> JNull \<and>
    (prop_error v = None \<or> (\<exists>u. prop_error v = Some u \<and> \<not> truthy u)) \<longrightarrow>
      fetchAPI (Response r)
        = Inl (JsError (Text (''API Error: '' @ status_text (status r))))) \<and>
   (ok r \<and> body r = Some v \<longrightarrow> fetchAPI (Response r) = Inr v) \<and>
   (ok r \<and> body r = None \<longrightarrow> fetchAPI (Response r) = Inl JsSyntaxError) \<and>
   ((\<exists>y. fetchAPI (Response r) = Inr y) \<longleftrightarrow> ok r \<and> body r \<noteq> None) \<and>
   fetchAPI FetchRejected = Inl NetworkFailure"
proof (intro conjI impI)
  show "\<exists>x. fetchAPI (Response r) = Inl x" if "\<not> ok r"
    using that by (rule fetchAPI_not_ok_raises)
  show "fetchAPI (Response r) = Inl (JsError (Text ''Unknown error''))"
    if "\<not> ok r \<and> body r = None"
    using that fetchAPI_not_ok_cases(1) by blast
  show "fetchAPI (Response r) = Inl JsTypeError" if "\<not> ok r \<and> body r = Some JNull"
    using that fetchAPI_not_ok_cases(2) by blast
  show "fetchAPI (Response r) = Inl (JsError (message_of e))"
    if "\<not> ok r \<and> body r = Some v \<and> v \<noteq> JNull \<and> prop_error v = Some e \<and> truthy e"
    using that fetchAPI_not_ok_cases(3) by blast
  show "fetchAPI (Response r) = Inl (JsError (Text m))"
    if "\<not> ok r \<and> body r = Some (JObject kvs) \<and>
        map_of (rev kvs) ''error'' = Some (JString m) \<and> m \<noteq> []"
    using that fetchAPI_not_ok_cases(3) [of r "JObject kvs" "JString m"] by simp
  show "fetchAPI (Response r) = Inl (JsError (Text (''API Error: '' @ status_text (status r))))"
    if "\<not> ok r \<and> body r = Some v \<and> v \<noteq> JNull \<and>
        (prop_error v = None \<or> (\<exists>u. prop_error v = Some u \<and> \<not> truthy u))"
    using that fetchAPI_not_ok_cases(4,5) by blast
  show "fetchAPI (Response r) = Inr v" if "ok r \<and> body r = Some v"
    using that by (simp add: fetchAPI_ok)
  show "fetchAPI (Response r) = Inl JsSyntaxError" if "ok r \<and> body r = None"
    using that by (simp add: fetchAPI_ok)
  show "(\<exists>y. fetchAPI (Response r) = Inr y) \<longleftrightarrow> ok r \<and> body r \<noteq> None"
    by (rule fetchAPI_returns_iff)
  show "fetchAPI FetchRejected = Inl NetworkFailure"
    by (simp add: fetchAPI_def)
qed

lemma status_text_404: "status_text 404 = ''404''" "status_text 422 = ''422''"
  by code_simp+

theorem C10_fetchAPI_outcomes_witness:
  "fetchAPI (Response \<lparr>ok = False, status = 500, body = None\<rparr>)
     = Inl (JsError (Text ''Unknown error'')) \<and>
   fetchAPI (Response \<lparr>ok = False, status = 500, body = Some JNull\<rparr>) = Inl JsTypeError \<and>
   fetchAPI (Response \<lparr>ok = False, status = 410,
       body = Some (JObject [(''error'', JString ''Quote expired'')])\<rparr>)
     = Inl (JsError (Text ''Quote expired'')) \<and>
   fetchAPI (Response \<lparr>ok = False, status = 404,
       body = Some (JObject [(''detail'', JString ''Not found'')])\<rparr>)
     = Inl (JsError (Text ''API Error: 404'')) \<and>
   fetchAPI (Response \<lparr>ok = False, status = 422,
       body = Some (JObject [(''error'', JString [])])\<rparr>)
     = Inl (JsError (Text ''API Error: 422'')) \<and>
   fetchAPI (Response \<lparr>ok = True, status = 200,
       body = Some (JObject [(''status'', JString ''ok'')])\<rparr>)
     = Inr (JObject [(''status'', JString ''ok'')]) \<and>
   fetchAPI (Response \<lparr>ok = True, status = 204, body = None\<rparr>) = Inl JsSyntaxError"
  using
    C10_fetchAPI_outcomes [of "\<lparr>ok = False, status = 500, body = None\<rparr>" JNull JNull "[]" "[]"]
    C10_fetchAPI_outcomes [of "\<lparr>ok = False, status = 500, body = Some JNull\<rparr>"
       JNull JNull "[]" "[]"]
    C10_fetchAPI_outcomes [of "\<lparr>ok = False, status = 410,
       body = Some (JObject [(''error'', JString ''Quote expired'')])\<rparr>"
       "JObject [(''error'', JString ''Quote expired'')]" "JString ''Quote expired''"
       "[(''error'', JString ''Quote expired'')]" "''Quote expired''"]
    C10_fetchAPI_outcomes [of "\<lparr>ok = False, status = 404,
       body = Some (JObject [(''detail'', JString ''Not found'')])\<rparr>"
       "JObject [(''detail'', JString ''Not found'')]" JNull "[]" "[]"]
    C10_fetchAPI_outcomes [of "\<lparr>ok = False, status = 422,
       body = Some (JObject [(''error'', JString [])])\<rparr>"
       "JObject [(''error'', JString [])]" JNull "[]" "[]"]
    C10_fetchAPI_outcomes [of "\<lparr>ok = True, status = 200,
       body = Some (JObject [(''status'', JString ''ok'')])\<rparr>"
       "JObject [(''status'', JString ''ok'')]" JNull "[]" "[]"]
    C10_fetchAPI_outcomes [of "\<lparr>ok = True, status = 204, body = None\<rparr>" JNull JNull "[]" "[]"]
  by (simp add: status_text_404 del: status_text.simps)

text \<open>
  Claim C10 as stated fails: a response that is ok with a body that is not JSON, such
  as an empty 204 response, makes \<open>fetchAPI\<close> raise.
\<close>

theorem C10_ok_response_raises_counterexample:
  "ok \<lparr>ok = True, status = 204, body = None\<rparr> \<and>
   fetchAPI (Response \<lparr>ok = True, status = 204, body = None\<rparr>) = Inl JsSyntaxError"
  by (simp add: fetchAPI_def)

section \<open>Properties of quote acceptance\<close>

text \<open>
  Claim C5. Accepting a quote strictly before its \<open>valid_until\<close> succeeds; accepting
  it at or after \<open>valid_until\<close> fails with \<open>Expired\<close>.
\<close>

theorem C5_accept_before_deadline:
  "(now < valid_until q \<longrightarrow> accept_quote now q = Inr (offer_id q)) \<and>
   (valid_until q \<le> now \<longrightarrow> accept_quote now q = Inl Expired)"
  by (simp add: accept_quote_def)

theorem C5_accept_before_deadline_witness:
  "accept_quote 1799 \<lparr>offer_id = ''Q-1'', valid_until = 1800\<rparr> = Inr ''Q-1'' \<and>
   accept_quote 1800 \<lparr>offer_id = ''Q-1'', valid_until = 1800\<rparr> = Inl Expired \<and>
   accept_quote 1801 \<lparr>offer_id = ''Q-1'', valid_until = 1800\<rparr> = Inl Expired"
  using
    C5_accept_before_deadline [of 1799 "\<lparr>offer_id = ''Q-1'', valid_until = 1800\<rparr>"]
    C5_accept_before_deadline [of 1800 "\<lparr>offer_id = ''Q-1'', valid_until = 1800\<rparr>"]
    C5_accept_before_deadline [of 1801 "\<lparr>offer_id = ''Q-1'', valid_until = 1800\<rparr>"]
  by simp

section \<open>Properties of the linear-feet inputs\<close>

lemma z_number_linearFeet:
  "z_number p (Some 1) (Some 53) v = [] \<longleftrightarrow> (\<exists>x. v = Finite x \<and> 1 \<le> x \<and> x \<le> 53)"
  by (cases v) (auto simp: z_number_def)

lemma linearFeet_after_cases:
  "linearFeet_after evs = (if evs = [] then linearFeet_initial else last evs)"
  unfolding linearFeet_after_def
  by (induction evs rule: rev_induct) (simp_all add: setLinearFeet_def)

text \<open>
  Claim C8. Validation of a shipment form succeeds only if its \<open>linearFeet\<close> is a
  number between 1 and 53 inclusive, and the \<open>linearFeet\<close> check by itself passes a
  finite value exactly when it lies in that range. The slider of the quote calculator
  has the bounds 1 and 53; its state starts at 20, and as long as the slider reports
  values within its bounds the state stays between 1 and 53.
\<close>

theorem C8_linear_feet_between_1_and_53:
  "(validation_succeeds d \<longrightarrow> (\<exists>x. linearFeet d = Finite x \<and> 1 \<le> x \<and> x \<le> 53)) \<and>
   (z_number ''linearFeet'' (Some 1) (Some 53) (Finite x) = [] \<longleftrightarrow> 1 \<le> x \<and> x \<le> 53) \<and>
   slider_min quoteSlider = 1 \<and> slider_max quoteSlider = 53 \<and>
   (list_all (slider_reports quoteSlider) evs \<longrightarrow>
      list_all (\<lambda>v. 1 \<le> v \<and> v \<le> 53) (linearFeet_after evs))"
proof (intro conjI impI)
  show "\<exists>x. linearFeet d = Finite x \<and> 1 \<le> x \<and> x \<le> 53" if "validation_succeeds d"
  proof -
    from that have "z_number ''linearFeet'' (Some 1) (Some 53) (linearFeet d) = []"
      by (simp add: validation_succeeds_def shipmentSchema_def)
    then show ?thesis by (simp only: z_number_linearFeet)
  qed
  show "z_number ''linearFeet'' (Some 1) (Some 53) (Finite x) = [] \<longleftrightarrow> 1 \<le> x \<and> x \<le> 53"
    by (simp add: z_number_linearFeet)
  show "slider_min quoteSlider = 1" "slider_max quoteSlider = 53"
    by (simp_all add: quoteSlider_def)
  show "list_all (\<lambda>v. 1 \<le> v \<and> v \<le> 53) (linearFeet_after evs)"
    if "list_all (slider_reports quoteSlider) evs"
  proof (cases "evs = []")
    case True
    then show ?thesis by (simp add: linearFeet_after_cases linearFeet_initial_def)
  next
    case False
    then have "last evs \<in> set evs" by simp
    with that have "slider_reports quoteSlider (last evs)" by (simp add: list_all_iff)
    with False show ?thesis
      by (simp add: linearFeet_after_cases slider_reports_def quoteSlider_def)
  qed
qed

theorem C8_linear_feet_between_1_and_53_witness:
  "validation_succeeds sampleForm \<and> linearFeet sampleForm = Finite 6 \<and>
   \<not> validation_succeeds (sampleForm\<lparr>linearFeet := Finite 54\<rparr>) \<and>
   list_all (slider_reports quoteSlider) [[30], [53]] \<and>
   linearFeet_after [[30], [53]] = [53]"
proof -
  have a: "validation_succeeds sampleForm" by code_simp
  have b: "list_all (slider_reports quoteSlider) [[30], [53]]" by code_simp
  have c: "linearFeet_after [[30], [53]] = [53]" by code_simp
  have d: "linearFeet sampleForm = Finite 6" by (simp add: sampleForm_def)
  from C8_linear_feet_between_1_and_53 [of sampleForm 6 "[[30], [53]]"]
    C8_linear_feet_between_1_and_53 [of "sampleForm\<lparr>linearFeet := Finite 54\<rparr>" 54 "[]"]
    a b c d
  show ?thesis by auto
qed

end
